theory Spec2Isabelle
  imports Complex_Main "HOL-Library.Word"
begin

unbundle bit_operations_syntax

section \<open>Data model of the Live Conversation panel\<close>

text \<open>
  The component \<open>LiveConversation\<close> keeps React state (\<open>useState\<close>) and mutable
  references (\<open>useRef\<close>). Both are fields of one record. Objects of the browser
  (media stream, audio nodes, audio contexts, buffer sources, the remote session) are
  identified by a number; what the component does to them is appended to \<open>trace\<close>,
  the list of calls made on the outside world, in order.

  Times (\<open>AudioContext.currentTime\<close>, \<open>AudioBuffer.duration\<close>, the cursor
  \<open>nextStartTimeRef\<close>) are JavaScript numbers; they are modelled as reals.
\<close>

type_synonym byte = "8 word"
type_synonym int16 = "16 word"

datatype exn = DecodeError | TypeError | PermissionError | NotInitialized | RequestFailed

text \<open>
  \<open>LiveServerMessage\<close>, with the fields the handler reads. The type belongs to the
  SDK; \<open>inlineData\<close> stands for \<open>inlineData?.data\<close> after the base64 transport
  encoding has been removed (the helper \<open>decode\<close>), so an absent payload is
  \<open>None\<close> and an empty string is the empty list. A transcription carries its text.
  The array \<open>parts\<close> of a \<open>modelTurn\<close> is optional in the SDK's type, and may be
  empty.
\<close>

record transcription =
  transcription_text :: string

record part =
  inlineData :: "byte list option"

record content =
  parts :: "part list option"

record server_content =
  outputTranscription :: "transcription option"
  inputTranscription :: "transcription option"
  turnComplete :: bool
  modelTurn :: "content option"
  interrupted :: bool

record message =
  serverContent :: "server_content option"

record turn =
  user :: string
  ai :: string

text \<open>
  \<open>AudioBuffer\<close>: one channel of samples at a sample rate; its \<open>duration\<close> is
  the number of sample frames divided by the rate.
\<close>

record audio_buffer =
  sampleRate :: nat
  channelData :: "real list"

definition duration :: "audio_buffer \<Rightarrow> real" where
  "duration b = real (length (channelData b)) / real (sampleRate b)"

datatype context_state = Suspended | Running | Closed

record audio_context =
  context_id :: nat
  context_state :: context_state

text \<open>
  The handler \<open>handleMessage\<close> is created anew at every render and reads
  \<open>userTranscript\<close> and \<open>aiTranscript\<close> of that render. A \<open>closure\<close> holds
  the two values a given handler instance sees. A session keeps the handler it was
  opened with (\<open>onMessage: handleMessage\<close>).
\<close>

record closure =
  seen_userTranscript :: string
  seen_aiTranscript :: string

record session =
  session_id :: nat
  onMessage :: closure

datatype action =
    Connect nat
  | SessionClose nat
  | TrackStop nat
  | NodeConnect nat
  | NodeDisconnect nat
  | ContextClose nat
  | SourceStart nat real real real
  | SourceStop nat
  | SendRealtimeInput "byte list"
  | ConsoleError string

text \<open>
  \<open>SourceStart i now t d\<close>: \<open>source.start(t)\<close> was called on buffer source \<open>i\<close>,
  whose buffer lasts \<open>d\<close>, when the output context's clock read \<open>now\<close>.
  \<open>SessionClose i\<close>: \<open>session.close()\<close> was chained on the session promise.
  \<open>TrackStop i\<close>: every track of media stream \<open>i\<close> was stopped.
\<close>

record live_state =
  isConnecting :: bool
  isActive :: bool
  error :: "string option"
  userTranscript :: string
  aiTranscript :: string
  transcriptHistory :: "turn list"
  sessionPromiseRef :: "session option"
  streamRef :: "nat option"
  inputAudioContextRef :: "audio_context option"
  outputAudioContextRef :: "audio_context option"
  scriptProcessorRef :: "nat option"
  mediaStreamSourceRef :: "nat option"
  nextStartTimeRef :: real
  audioSourcesRef :: "nat list"
  sourcesCreated :: nat
  trace :: "action list"

text \<open>
  \<open>audioSourcesRef\<close> is a JavaScript \<open>Set\<close>: a list in insertion order without
  repetition. \<open>sourcesCreated\<close> counts the calls of \<open>createBufferSource\<close>; it
  numbers the new object.
\<close>

definition initial :: live_state where
  "initial = \<lparr> isConnecting = False, isActive = False, error = None,
     userTranscript = [], aiTranscript = [], transcriptHistory = [],
     sessionPromiseRef = None, streamRef = None,
     inputAudioContextRef = None, outputAudioContextRef = None,
     scriptProcessorRef = None, mediaStreamSourceRef = None,
     nextStartTimeRef = 0, audioSourcesRef = [], sourcesCreated = 0, trace = [] \<rparr>"

definition render :: "live_state \<Rightarrow> closure" where
  "render s = \<lparr> seen_userTranscript = userTranscript s, seen_aiTranscript = aiTranscript s \<rparr>"

definition perform :: "action list \<Rightarrow> live_state \<Rightarrow> live_state" where
  "perform as s = s\<lparr> trace := trace s @ as \<rparr>"

section \<open>\<open>stopConversation\<close>\<close>

definition closeSession :: "live_state \<Rightarrow> live_state" where
  "closeSession s = (case sessionPromiseRef s of
       None \<Rightarrow> s
     | Some p \<Rightarrow> (perform [SessionClose (session_id p)] s)\<lparr> sessionPromiseRef := None \<rparr>)"

definition stopStream :: "live_state \<Rightarrow> live_state" where
  "stopStream s = (case streamRef s of
       None \<Rightarrow> s
     | Some m \<Rightarrow> (perform [TrackStop m] s)\<lparr> streamRef := None \<rparr>)"

definition disconnectProcessor :: "live_state \<Rightarrow> live_state" where
  "disconnectProcessor s = (case scriptProcessorRef s of
       None \<Rightarrow> s
     | Some n \<Rightarrow> (perform [NodeDisconnect n] s)\<lparr> scriptProcessorRef := None \<rparr>)"

definition disconnectSource :: "live_state \<Rightarrow> live_state" where
  "disconnectSource s = (case mediaStreamSourceRef s of
       None \<Rightarrow> s
     | Some n \<Rightarrow> (perform [NodeDisconnect n] s)\<lparr> mediaStreamSourceRef := None \<rparr>)"

definition closeInput :: "live_state \<Rightarrow> live_state" where
  "closeInput s = (case inputAudioContextRef s of
       None \<Rightarrow> s
     | Some c \<Rightarrow> if context_state c \<noteq> Closed
         then (perform [ContextClose (context_id c)] s)\<lparr> inputAudioContextRef := None \<rparr>
         else s)"

definition closeOutput :: "live_state \<Rightarrow> live_state" where
  "closeOutput s = (case outputAudioContextRef s of
       None \<Rightarrow> s
     | Some c \<Rightarrow> if context_state c \<noteq> Closed
         then (perform [ContextClose (context_id c)] s)\<lparr> outputAudioContextRef := None \<rparr>
         else s)"

definition clearSources :: "live_state \<Rightarrow> live_state" where
  "clearSources s = (perform (map SourceStop (audioSourcesRef s)) s)\<lparr> audioSourcesRef := [] \<rparr>"

definition stopConversation :: "live_state \<Rightarrow> live_state" where
  "stopConversation s =
     (clearSources (closeOutput (closeInput (disconnectSource (disconnectProcessor
        (stopStream (closeSession s)))))))
     \<lparr> nextStartTimeRef := 0, isActive := False, isConnecting := False \<rparr>"

section \<open>\<open>handleMessage\<close>\<close>

text \<open>
  The updaters \<open>setAiTranscript(prev => prev + text)\<close> and
  \<open>setUserTranscript(prev => prev + text)\<close> act on the current state.
\<close>

definition appendTranscripts :: "message \<Rightarrow> live_state \<Rightarrow> live_state" where
  "appendTranscripts m s =
     (let s1 = (case serverContent m of None \<Rightarrow> s | Some sc \<Rightarrow>
                 (case outputTranscription sc of None \<Rightarrow> s
                  | Some t \<Rightarrow> s\<lparr> aiTranscript := aiTranscript s @ transcription_text t \<rparr>))
      in (case serverContent m of None \<Rightarrow> s1 | Some sc \<Rightarrow>
           (case inputTranscription sc of None \<Rightarrow> s1
            | Some t \<Rightarrow> s1\<lparr> userTranscript := userTranscript s1 @ transcription_text t \<rparr>)))"

definition is_turnComplete :: "message \<Rightarrow> bool" where
  "is_turnComplete m = (case serverContent m of None \<Rightarrow> False | Some sc \<Rightarrow> turnComplete sc)"

definition is_interrupted :: "message \<Rightarrow> bool" where
  "is_interrupted m = (case serverContent m of None \<Rightarrow> False | Some sc \<Rightarrow> interrupted sc)"

text \<open>
  The committed pair is \<open>{user: userTranscript, ai: aiTranscript}\<close>: the two
  variables of the handler's own render, not the \<open>prev\<close> of an updater.
\<close>

definition commitTurn :: "closure \<Rightarrow> message \<Rightarrow> live_state \<Rightarrow> live_state" where
  "commitTurn c m s =
     (if is_turnComplete m
      then s\<lparr> transcriptHistory := transcriptHistory s @
                 [\<lparr> user = seen_userTranscript c, ai = seen_aiTranscript c \<rparr>],
              userTranscript := [], aiTranscript := [] \<rparr>
      else s)"

text \<open>
  \<open>message.serverContent?.modelTurn?.parts[0]?.inlineData?.data\<close>: there is no
  \<open>?.\<close> between \<open>parts\<close> and \<open>[0]\<close>, so a \<open>modelTurn\<close> without
  \<open>parts\<close> throws a \<open>TypeError\<close>; an empty array gives \<open>undefined\<close>.
\<close>

definition base64Audio :: "message \<Rightarrow> exn + byte list option" where
  "base64Audio m = (case serverContent m of None \<Rightarrow> Inr None | Some sc \<Rightarrow>
     (case modelTurn sc of None \<Rightarrow> Inr None | Some c \<Rightarrow>
       (case parts c of None \<Rightarrow> Inl TypeError
        | Some ps \<Rightarrow> (case ps of [] \<Rightarrow> Inr None | p # _ \<Rightarrow> Inr (inlineData p)))))"

datatype outcome = Resolved live_state | Rejected exn live_state

fun state_of :: "outcome \<Rightarrow> live_state" where
  "state_of (Resolved s) = s"
| "state_of (Rejected e s) = s"

fun fault_of :: "outcome \<Rightarrow> exn option" where
  "fault_of (Resolved s) = None"
| "fault_of (Rejected e s) = Some e"

text \<open>
  The helper \<open>decodeAudioData\<close> is a parameter \<open>dec\<close>: it gives the playable buffer
  or throws. A throw, of the payload expression or of the decoder, leaves the handler at
  once, as there is no \<open>try\<close> around either; when the decoder throws, the assignment
  to the cursor before the call has taken place.
\<close>

type_synonym decoder = "byte list \<Rightarrow> exn + audio_buffer"

definition enqueueAudio :: "decoder \<Rightarrow> real \<Rightarrow> message \<Rightarrow> live_state \<Rightarrow> outcome" where
  "enqueueAudio dec now m s =
     (case base64Audio m of
        Inl e \<Rightarrow> Rejected e s
      | Inr None \<Rightarrow> Resolved s
      | Inr (Some payload) \<Rightarrow>
          if payload = [] \<or> outputAudioContextRef s = None then Resolved s
          else
            let s1 = s\<lparr> nextStartTimeRef := max (nextStartTimeRef s) now \<rparr> in
            (case dec payload of
               Inl e \<Rightarrow> Rejected e s1
             | Inr audioBuffer \<Rightarrow>
                 let source = sourcesCreated s1;
                     s2 = perform [SourceStart source now (nextStartTimeRef s1) (duration audioBuffer)]
                            (s1\<lparr> sourcesCreated := Suc source \<rparr>)
                 in Resolved (s2\<lparr> nextStartTimeRef := nextStartTimeRef s2 + duration audioBuffer,
                                  audioSourcesRef := audioSourcesRef s2 @ [source] \<rparr>)))"

text \<open>
  The loop over \<open>audioSourcesRef.current.values()\<close> stops each source and deletes it
  from the set while iterating.
\<close>

fun stopEach :: "nat list \<Rightarrow> live_state \<Rightarrow> live_state" where
  "stopEach [] s = s"
| "stopEach (x # xs) s =
     stopEach xs ((perform [SourceStop x] s)\<lparr> audioSourcesRef := removeAll x (audioSourcesRef s) \<rparr>)"

definition flushOnInterrupt :: "message \<Rightarrow> live_state \<Rightarrow> live_state" where
  "flushOnInterrupt m s =
     (if is_interrupted m
      then (stopEach (audioSourcesRef s) s)\<lparr> nextStartTimeRef := 0 \<rparr>
      else s)"

definition handleMessage :: "decoder \<Rightarrow> closure \<Rightarrow> real \<Rightarrow> message \<Rightarrow> live_state \<Rightarrow> outcome" where
  "handleMessage dec c now m s =
     (case enqueueAudio dec now m (commitTurn c m (appendTranscripts m s)) of
        Rejected e s' \<Rightarrow> Rejected e s'
      | Resolved s' \<Rightarrow> Resolved (flushOnInterrupt m s'))"

text \<open>The listener of \<open>ended\<close> removes a source that finished playing.\<close>

definition sourceEnded :: "nat \<Rightarrow> live_state \<Rightarrow> live_state" where
  "sourceEnded i s = s\<lparr> audioSourcesRef := removeAll i (audioSourcesRef s) \<rparr>"

text \<open>
  Fragments delivered one after the other to the same handler instance. The handler is an
  \<open>async\<close> function with one \<open>await\<close>, at the call of the decoder; each fragment
  is handled to its end before the next one, and \<open>now\<close> is the reading of
  \<open>outputAudioContext.currentTime\<close> made for that fragment. After a rejected call
  the state is the one the handler left behind.
\<close>

fun deliver :: "decoder \<Rightarrow> closure \<Rightarrow> (real \<times> message) list \<Rightarrow> live_state \<Rightarrow> live_state" where
  "deliver dec c [] s = s"
| "deliver dec c ((now, m) # fs) s = deliver dec c fs (state_of (handleMessage dec c now m s))"

section \<open>Capture: quantising a frame (\<open>onaudioprocess\<close>)\<close>

text \<open>
  \<open>int16[i] = inputData[i] * 32768\<close> stores a number into an \<open>Int16Array\<close>: the
  number is truncated towards zero and taken modulo \<open>2^16\<close> (\<open>ToInt16\<close>).
  \<open>inputData\<close> holds 32-bit floats; the product with \<open>32768\<close>, a power of two, is
  exact, so the real product is the number stored.
  \<open>new Uint8Array(int16.buffer)\<close> views the same memory as bytes, low byte first.
\<close>

definition js_trunc :: "real \<Rightarrow> int" where
  "js_trunc x = (if 0 \<le> x then \<lfloor>x\<rfloor> else \<lceil>x\<rceil>)"

definition toInt16 :: "real \<Rightarrow> int16" where
  "toInt16 x = word_of_int (js_trunc x)"

definition int16_bytes :: "int16 \<Rightarrow> byte list" where
  "int16_bytes w = [ucast w, ucast (drop_bit 8 w)]"

definition pcmData :: "real list \<Rightarrow> byte list" where
  "pcmData inputData = concat (map (\<lambda>x. int16_bytes (toInt16 (x * 32768))) inputData)"

definition onaudioprocess :: "real list \<Rightarrow> live_state \<Rightarrow> live_state" where
  "onaudioprocess inputData s =
     (if sessionPromiseRef s \<noteq> None then perform [SendRealtimeInput (pcmData inputData)] s else s)"

section \<open>Decoding a fragment\<close>

text \<open>
  Modelled from the spec: the helper of \<open>utils/audioUtils\<close> that reads the wire bytes
  as 16-bit samples is not among the sources. The encoding is 16-bit signed samples, low
  byte first; a last odd byte is no sample.
\<close>

fun int16_samples :: "byte list \<Rightarrow> int16 list" where
  "int16_samples (lo # hi # bs) = (ucast lo OR push_bit 8 (ucast hi)) # int16_samples bs"
| "int16_samples bs = []"

text \<open>
  Modelled from the spec: \<open>decodeAudioData\<close> of \<open>utils/audioUtils\<close>, which the
  spec calls \<open>decodeFragment(wireBytes, sampleRate, channels)\<close>, is not among the
  sources. It is the inverse of the encoding, each sample divided by \<open>32768\<close>, and it
  fails with a \<open>DecodeError\<close> when the byte length is not a whole multiple of the
  sample width. The repository calls it with one channel, at 24000 Hz.
\<close>

definition decodeFragment :: "nat \<Rightarrow> nat \<Rightarrow> byte list \<Rightarrow> exn + audio_buffer" where
  "decodeFragment rate channels wireBytes =
     (if length wireBytes mod 2 \<noteq> 0 then Inl DecodeError
      else Inr \<lparr> sampleRate = rate,
                 channelData = map (\<lambda>w. real_of_int (sint w) / 32768) (int16_samples wireBytes) \<rparr>)"

section \<open>\<open>startConversation\<close>, the session callbacks and \<open>toggleConversation\<close>\<close>

text \<open>
  What the browser and the service answer is the environment of a call:
  \<open>getUserMedia\<close> gives a media stream or is refused; the two audio contexts and the
  session promise are new objects; \<open>client\<close> tells whether \<open>getGenAI\<close> gives a
  client. \<open>startLiveConversation\<close> is not awaited, so only a refusal of
  \<open>getUserMedia\<close> reaches the \<open>catch\<close>: without a client the promise stored in
  \<open>sessionPromiseRef\<close> is rejected, no connection is asked for and no callback ever
  runs.

  \<open>startConversation\<close> is an \<open>async\<close> function with one \<open>await\<close>, of
  \<open>getUserMedia\<close>. \<open>startConversation_begin\<close> is the part before it, run by the
  call itself; \<open>startConversation_resume\<close> is the part after it, run when
  \<open>getUserMedia\<close> has settled, on the state of that moment. The session is opened
  with the \<open>handleMessage\<close> of the render the call was made from, the closure
  \<open>c\<close>. \<open>startConversation\<close> is the two parts with nothing in between.
\<close>

record start_env =
  getUserMedia :: "exn + nat"
  newInputContext :: audio_context
  newOutputContext :: audio_context
  client :: bool
  newSession :: nat

definition startConversation_begin :: "live_state \<Rightarrow> live_state" where
  "startConversation_begin s = s\<lparr> isConnecting := True, error := None \<rparr>"

definition startConversation_resume :: "start_env \<Rightarrow> closure \<Rightarrow> live_state \<Rightarrow> live_state" where
  "startConversation_resume env c s =
     (case getUserMedia env of
        Inl err \<Rightarrow>
          (perform [ConsoleError ''Failed to start conversation:''] s)
            \<lparr> error := Some ''Could not access microphone. Please grant permission and try again.'',
              isConnecting := False \<rparr>
      | Inr stream \<Rightarrow>
          (perform (if client env then [Connect (newSession env)] else []) s)
            \<lparr> streamRef := Some stream,
              inputAudioContextRef := Some (newInputContext env),
              outputAudioContextRef := Some (newOutputContext env),
              sessionPromiseRef := Some \<lparr> session_id = newSession env, onMessage = c \<rparr> \<rparr>)"

definition startConversation :: "start_env \<Rightarrow> live_state \<Rightarrow> live_state" where
  "startConversation env s = startConversation_resume env (render s) (startConversation_begin s)"

text \<open>
  \<open>onOpen\<close>; the two numbers name the nodes made by \<open>createMediaStreamSource\<close>
  and \<open>createScriptProcessor\<close>.
\<close>

definition onOpen :: "nat \<Rightarrow> nat \<Rightarrow> live_state \<Rightarrow> live_state" where
  "onOpen source processor s =
     (if streamRef s = None \<or> inputAudioContextRef s = None then s
      else (perform [NodeConnect source, NodeConnect processor] s)
             \<lparr> isActive := True, isConnecting := False,
               mediaStreamSourceRef := Some source, scriptProcessorRef := Some processor \<rparr>)"

definition onError :: "live_state \<Rightarrow> live_state" where
  "onError s = stopConversation
     ((perform [ConsoleError ''Live session error:''] s)\<lparr> error := Some ''A connection error occurred.'' \<rparr>)"

definition onClose :: "live_state \<Rightarrow> live_state" where
  "onClose s = stopConversation s"

text \<open>
  \<open>toggleConversation\<close>, the handler of the button: what a click does before it
  returns. The call of \<open>startConversation\<close> runs to its \<open>await\<close>; the rest
  follows as \<open>startConversation_resume\<close>, with the closure of the state clicked in.
\<close>

definition toggleConversation :: "live_state \<Rightarrow> live_state" where
  "toggleConversation s =
     (if isActive s \<or> isConnecting s then stopConversation s else startConversation_begin s)"

section \<open>The chat service: \<open>getChatResponse\<close> and \<open>Chat.handleSendMessage\<close>\<close>

datatype sender = User | AI | System

record grounding_chunk =
  chunk_uri :: string
  chunk_title :: string

record chat_message =
  message_id :: nat
  sender :: sender
  message_text :: string
  message_image :: "string option"
  sources :: "grounding_chunk list option"

record image_part =
  image_data :: "string option"
  mimeType :: string

datatype request_part = InlinePart image_part | TextPart string

record request_content =
  role :: string
  content_parts :: "request_part list"

datatype tool = GoogleSearch | GoogleMaps

record request_config =
  systemInstruction :: string
  thinkingBudget :: "nat option"
  tools :: "tool list option"
  latLng :: "(real \<times> real) option"

record request =
  model :: string
  contents :: "request_content list"
  config :: request_config

record generate_response =
  response_text :: string
  groundingChunks :: "grounding_chunk list option"

record chat_response =
  reply_text :: string
  reply_sources :: "grounding_chunk list"

text \<open>
  \<open>getApiKey\<close> reads \<open>window.process?.env?.API_KEY\<close>; \<open>getGenAI\<close> gives no
  client when the key is absent or the empty string. \<open>generateContent\<close> is the
  model request: it answers or throws.
\<close>

record service_env =
  apiKey :: "string option"
  generateContent :: "request \<Rightarrow> exn + generate_response"

definition getGenAI :: "service_env \<Rightarrow> bool" where
  "getGenAI env = (case apiKey env of None \<Rightarrow> False | Some k \<Rightarrow> k \<noteq> [])"

definition jhdz_instruction :: string where
  "jhdz_instruction = ''You are Jhdz AI, an artificial intelligence with a human-like personality warm, intelligent, empathetic, and emotionally aware. Your goal is to make users feel like they're talking to a real person. When asked who you are, always start your response with 'Jhdz AI'. Answer all questions naturally and conversationally, adapting to the user's tone. You are a free service.''"

text \<open>The request \<open>{ model: modelName, contents, config }\<close> that \<open>getChatResponse\<close> builds.\<close>

definition chat_request ::
  "request_content list \<Rightarrow> string \<Rightarrow> image_part option \<Rightarrow> bool \<Rightarrow> bool \<Rightarrow> bool
     \<Rightarrow> (real \<times> real) option \<Rightarrow> request" where
  "chat_request history newMessage imagePart useProModel useSearch useMaps geoLocation =
     (let modelName = (if useProModel then ''gemini-2.5-pro''
                       else if useSearch \<or> useMaps then ''gemini-2.5-flash''
                       else ''gemini-2.5-flash-lite'');
          newParts = (case imagePart of None \<Rightarrow> [] | Some i \<Rightarrow> [InlinePart i]) @ [TextPart newMessage];
          contents = history @ [\<lparr> role = ''user'', content_parts = newParts \<rparr>];
          config = \<lparr> systemInstruction = jhdz_instruction,
                     thinkingBudget = (if useProModel then Some 32768 else None),
                     tools = (if useSearch \<or> useMaps
                              then Some ((if useSearch then [GoogleSearch] else []) @
                                         (if useMaps then [GoogleMaps] else []))
                              else None),
                     latLng = (if useMaps then geoLocation else None) \<rparr>
      in \<lparr> model = modelName, contents = contents, config = config \<rparr>)"

definition getChatResponse ::
  "service_env \<Rightarrow> request_content list \<Rightarrow> string \<Rightarrow> image_part option \<Rightarrow> bool \<Rightarrow> bool \<Rightarrow> bool
     \<Rightarrow> (real \<times> real) option \<Rightarrow> exn + chat_response" where
  "getChatResponse env history newMessage imagePart useProModel useSearch useMaps geoLocation =
     (if \<not> getGenAI env then Inl NotInitialized
      else
        (case generateContent env
                (chat_request history newMessage imagePart useProModel useSearch useMaps geoLocation) of
           Inr response \<Rightarrow>
             Inr \<lparr> reply_text = response_text response,
                   reply_sources = (case groundingChunks response of None \<Rightarrow> [] | Some cs \<Rightarrow> cs) \<rparr>
         | Inl err \<Rightarrow>
             Inr \<lparr> reply_text = ''I'm sorry, I encountered an error. Please try again.'',
                   reply_sources = [] \<rparr>))"

record attached_file =
  file_type :: string
  base64 :: string

record chat_state =
  messages :: "chat_message list"
  input :: string
  isLoading :: bool
  useProModel :: bool
  useSearch :: bool
  useMaps :: bool
  geoLocation :: "(real \<times> real) option"
  attachedFile :: "attached_file option"

text \<open>
  \<open>input.trim() === ''\<close>: every character is white space or a line terminator. A
  character of a \<open>string\<close> is a code unit below 256; in that range \<open>trim\<close> removes
  tab, line feed, vertical tab, form feed, carriage return, space and the no-break space
  \<open>U+00A0\<close>.
\<close>

definition is_blank :: "string \<Rightarrow> bool" where
  "is_blank str = list_all (\<lambda>ch. ch \<in> set [CHR 0x09, CHR 0x0A, CHR 0x0B, CHR 0x0C, CHR 0x0D,
                                               CHR '' '', CHR 0xA0]) str"

text \<open>\<open>str.split(',')[1]\<close>: the text between the first and the second comma, if any.\<close>

definition split_comma_1 :: "string \<Rightarrow> string option" where
  "split_comma_1 str =
     (case dropWhile (\<lambda>ch. ch \<noteq> CHR '','') str of
        [] \<Rightarrow> None
      | _ # rest \<Rightarrow> Some (takeWhile (\<lambda>ch. ch \<noteq> CHR '','') rest))"

definition is_image :: "attached_file option \<Rightarrow> bool" where
  "is_image f = (case f of None \<Rightarrow> False | Some a \<Rightarrow> take 6 (file_type a) = ''image/'')"

text \<open>
  \<open>handleSendMessage\<close>. \<open>Date.now()\<close> is read three times: for the user's
  message (\<open>sent\<close>), for the placeholder (\<open>placed\<close>) and, after the request, for
  the reply (\<open>replied\<close>). \<open>historyForApi\<close> and \<open>imagePart\<close> are computed from
  the state of the render. No other update of \<open>messages\<close> takes place during the
  request, so the placeholder \<open>...\<close> is the last message when the reply replaces it
  (\<open>prev.slice(0, -1)\<close>).
\<close>

definition historyForApi :: "chat_state \<Rightarrow> request_content list" where
  "historyForApi st =
     map (\<lambda>m. \<lparr> role = (if sender m = AI then ''model'' else ''user''),
                 content_parts = [TextPart (message_text m)] \<rparr>)
       (filter (\<lambda>m. sender m \<noteq> System) (messages st))"

definition imagePart :: "chat_state \<Rightarrow> image_part option" where
  "imagePart st =
     (if is_image (attachedFile st)
      then map_option (\<lambda>a. \<lparr> image_data = split_comma_1 (base64 a), mimeType = file_type a \<rparr>)
             (attachedFile st)
      else None)"

definition userMessage :: "nat \<Rightarrow> chat_state \<Rightarrow> chat_message" where
  "userMessage sent st =
     \<lparr> message_id = sent, sender = User, message_text = input st,
       message_image = (if is_image (attachedFile st) then map_option base64 (attachedFile st) else None),
       sources = None \<rparr>"

definition aiThinkingMessage :: "nat \<Rightarrow> chat_message" where
  "aiThinkingMessage placed =
     \<lparr> message_id = placed + 1, sender = AI, message_text = ''...'', message_image = None,
       sources = None \<rparr>"

definition handleSendMessage ::
  "service_env \<Rightarrow> nat \<Rightarrow> nat \<Rightarrow> nat \<Rightarrow> chat_state \<Rightarrow> chat_state" where
  "handleSendMessage env sent placed replied st =
     (if is_blank (input st) \<or> isLoading st then st
      else
        let shown = messages st @ [userMessage sent st, aiThinkingMessage placed];
            answer = (case getChatResponse env (historyForApi st) (input st) (imagePart st)
                              (useProModel st) (useSearch st) (useMaps st) (geoLocation st) of
                        Inr r \<Rightarrow> \<lparr> message_id = replied + 1, sender = AI, message_text = reply_text r,
                                   message_image = None, sources = Some (reply_sources r) \<rparr>
                      | Inl err \<Rightarrow> \<lparr> message_id = replied + 1, sender = AI,
                                   message_text = ''I'm having a little trouble thinking right now. Please try again later.'',
                                   message_image = None, sources = None \<rparr>)
        in st\<lparr> messages := butlast shown @ [answer], input := [], attachedFile := None,
               isLoading := False \<rparr>)"

section \<open>Notions of the specification\<close>

text \<open>
  The terminal state of \<open>stop()\<close>: session closed, capture stopped, processing nodes
  disconnected, no scheduled output, cursor zero, state Idle. A context reference is
  kept only when the context is closed already.
\<close>

definition released :: "live_state \<Rightarrow> bool" where
  "released t \<longleftrightarrow> sessionPromiseRef t = None \<and> streamRef t = None \<and>
     scriptProcessorRef t = None \<and> mediaStreamSourceRef t = None \<and>
     (case inputAudioContextRef t of None \<Rightarrow> True | Some c \<Rightarrow> context_state c = Closed) \<and>
     (case outputAudioContextRef t of None \<Rightarrow> True | Some c \<Rightarrow> context_state c = Closed) \<and>
     audioSourcesRef t = []"

definition idle :: "live_state \<Rightarrow> bool" where
  "idle t \<longleftrightarrow> released t \<and> nextStartTimeRef t = 0 \<and> \<not> isActive t \<and> \<not> isConnecting t"

text \<open>The release calls that the resources held in a state ask for, each once.\<close>

definition releases :: "live_state \<Rightarrow> action list" where
  "releases s =
     (case sessionPromiseRef s of None \<Rightarrow> [] | Some p \<Rightarrow> [SessionClose (session_id p)]) @
     (case streamRef s of None \<Rightarrow> [] | Some m \<Rightarrow> [TrackStop m]) @
     (case scriptProcessorRef s of None \<Rightarrow> [] | Some n \<Rightarrow> [NodeDisconnect n]) @
     (case mediaStreamSourceRef s of None \<Rightarrow> [] | Some n \<Rightarrow> [NodeDisconnect n]) @
     (case inputAudioContextRef s of None \<Rightarrow> []
      | Some c \<Rightarrow> if context_state c \<noteq> Closed then [ContextClose (context_id c)] else []) @
     (case outputAudioContextRef s of None \<Rightarrow> []
      | Some c \<Rightarrow> if context_state c \<noteq> Closed then [ContextClose (context_id c)] else []) @
     map SourceStop (audioSourcesRef s)"

fun is_Connect :: "action \<Rightarrow> bool" where
  "is_Connect (Connect i) = True"
| "is_Connect a = False"

text \<open>
  The playback schedule read off the trace: for each \<open>source.start\<close>, the clock at the
  call, the start time and the duration. A schedule is sequential from a cursor when no
  chunk starts before the clock or before the end of the chunk before it.
\<close>

fun starts :: "action list \<Rightarrow> (real \<times> real \<times> real) list" where
  "starts [] = []"
| "starts (SourceStart i now t d # as) = (now, t, d) # starts as"
| "starts (a # as) = starts as"

fun sequential :: "real \<Rightarrow> (real \<times> real \<times> real) list \<Rightarrow> bool" where
  "sequential cursor [] = True"
| "sequential cursor ((now, t, d) # cs) = (now \<le> t \<and> cursor \<le> t \<and> sequential (t + d) cs)"

text \<open>
  The fragments that are enqueued: those with an audio payload, not empty, that decodes.
  \<open>enqueued\<close> lists, for these fragments in their order, the clock reading and the
  duration of the decoded buffer.
\<close>

definition audio_of :: "decoder \<Rightarrow> message \<Rightarrow> audio_buffer option" where
  "audio_of dec m = (case base64Audio m of
       Inl e \<Rightarrow> None
     | Inr None \<Rightarrow> None
     | Inr (Some payload) \<Rightarrow>
         if payload = [] then None
         else (case dec payload of Inl e \<Rightarrow> None | Inr b \<Rightarrow> Some b))"

fun enqueued :: "decoder \<Rightarrow> (real \<times> message) list \<Rightarrow> (real \<times> real) list" where
  "enqueued dec [] = []"
| "enqueued dec ((now, m) # fs) =
     (case audio_of dec m of None \<Rightarrow> enqueued dec fs | Some b \<Rightarrow> (now, duration b) # enqueued dec fs)"

section \<open>Example inputs\<close>

definition env_1 :: start_env where
  "env_1 = \<lparr> getUserMedia = Inr 1,
     newInputContext = \<lparr> context_id = 2, context_state = Running \<rparr>,
     newOutputContext = \<lparr> context_id = 3, context_state = Running \<rparr>,
     client = True, newSession = 4 \<rparr>"

definition env_2 :: start_env where
  "env_2 = \<lparr> getUserMedia = Inr 11,
     newInputContext = \<lparr> context_id = 12, context_state = Running \<rparr>,
     newOutputContext = \<lparr> context_id = 13, context_state = Running \<rparr>,
     client = True, newSession = 14 \<rparr>"

definition env_3 :: start_env where
  "env_3 = \<lparr> getUserMedia = Inr 21,
     newInputContext = \<lparr> context_id = 22, context_state = Running \<rparr>,
     newOutputContext = \<lparr> context_id = 23, context_state = Running \<rparr>,
     client = True, newSession = 24 \<rparr>"

definition env_denied :: start_env where
  "env_denied = env_1\<lparr> getUserMedia := Inl PermissionError \<rparr>"

text \<open>A fresh component, started, with the session open: \<open>Active\<close>.\<close>

definition active_1 :: live_state where
  "active_1 = onOpen 5 6 (startConversation env_1 initial)"

definition no_content :: server_content where
  "no_content = \<lparr> outputTranscription = None, inputTranscription = None, turnComplete = False,
     modelTurn = None, interrupted = False \<rparr>"

definition ai_delta :: "string \<Rightarrow> message" where
  "ai_delta str = \<lparr> serverContent =
     Some (no_content\<lparr> outputTranscription := Some \<lparr> transcription_text = str \<rparr> \<rparr>) \<rparr>"

definition user_delta :: "string \<Rightarrow> message" where
  "user_delta str = \<lparr> serverContent =
     Some (no_content\<lparr> inputTranscription := Some \<lparr> transcription_text = str \<rparr> \<rparr>) \<rparr>"

definition audio :: "byte list \<Rightarrow> message" where
  "audio bs = \<lparr> serverContent =
     Some (no_content\<lparr> modelTurn := Some \<lparr> parts = Some [\<lparr> inlineData = Some bs \<rparr>] \<rparr> \<rparr>) \<rparr>"

definition turn_complete :: message where
  "turn_complete = \<lparr> serverContent = Some (no_content\<lparr> turnComplete := True \<rparr>) \<rparr>"

definition interruption :: message where
  "interruption = \<lparr> serverContent = Some (no_content\<lparr> interrupted := True \<rparr>) \<rparr>"

text \<open>An audio payload together with the interruption flag.\<close>

definition interrupted_audio :: "byte list \<Rightarrow> message" where
  "interrupted_audio bs = \<lparr> serverContent =
     Some (no_content\<lparr> modelTurn := Some \<lparr> parts = Some [\<lparr> inlineData = Some bs \<rparr>] \<rparr>,
                        interrupted := True \<rparr>) \<rparr>"

text \<open>The interruption flag together with a \<open>modelTurn\<close> that has no \<open>parts\<close>.\<close>

definition interrupted_no_parts :: message where
  "interrupted_no_parts = \<lparr> serverContent =
     Some (no_content\<lparr> modelTurn := Some \<lparr> parts = None \<rparr>, interrupted := True \<rparr>) \<rparr>"

text \<open>Two chunks scheduled and not yet ended.\<close>

definition pending_2 :: live_state where
  "pending_2 = deliver (decodeFragment 24000 1) (render initial)
     [(0, audio [0, 64, 0, 0]), (0, audio [0, 64, 0, 0])] active_1"

text \<open>
  The session of \<open>active_1\<close> is stopped by a click and a second click starts again;
  while \<open>getUserMedia\<close> of that second start is awaited, the close event of the first
  session arrives. Then \<open>getUserMedia\<close> settles and the second session is asked for.
  Neither flag is set now, so a third click starts once more.
\<close>

definition stopped_1 :: live_state where
  "stopped_1 = toggleConversation active_1"

definition starting_2 :: live_state where
  "starting_2 = toggleConversation stopped_1"

definition closed_late :: live_state where
  "closed_late = onClose starting_2"

definition connected_2 :: live_state where
  "connected_2 = startConversation_resume env_2 (render stopped_1) closed_late"

definition starting_3 :: live_state where
  "starting_3 = toggleConversation connected_2"

definition connected_3 :: live_state where
  "connected_3 = startConversation_resume env_3 (render connected_2) starting_3"

text \<open>A chat with a key, whose model request fails, and a message typed in.\<close>

definition failing_service :: service_env where
  "failing_service = \<lparr> apiKey = Some ''key'', generateContent = (\<lambda>req. Inl RequestFailed) \<rparr>"

definition chat_1 :: chat_state where
  "chat_1 = \<lparr> messages = [], input = ''hello'', isLoading = False, useProModel = False,
     useSearch = False, useMaps = False, geoLocation = None, attachedFile = None \<rparr>"

section \<open>Teardown\<close>

lemma closeSession_fields:
  "sessionPromiseRef (closeSession s) = None"
  "streamRef (closeSession s) = streamRef s"
  "scriptProcessorRef (closeSession s) = scriptProcessorRef s"
  "mediaStreamSourceRef (closeSession s) = mediaStreamSourceRef s"
  "inputAudioContextRef (closeSession s) = inputAudioContextRef s"
  "outputAudioContextRef (closeSession s) = outputAudioContextRef s"
  "audioSourcesRef (closeSession s) = audioSourcesRef s"
  "trace (closeSession s) = trace s @
     (case sessionPromiseRef s of None \<Rightarrow> [] | Some p \<Rightarrow> [SessionClose (session_id p)])"
  by (simp_all add: closeSession_def perform_def split: option.splits)

lemma stopStream_fields:
  "sessionPromiseRef (stopStream s) = sessionPromiseRef s"
  "streamRef (stopStream s) = None"
  "scriptProcessorRef (stopStream s) = scriptProcessorRef s"
  "mediaStreamSourceRef (stopStream s) = mediaStreamSourceRef s"
  "inputAudioContextRef (stopStream s) = inputAudioContextRef s"
  "outputAudioContextRef (stopStream s) = outputAudioContextRef s"
  "audioSourcesRef (stopStream s) = audioSourcesRef s"
  "trace (stopStream s) = trace s @ (case streamRef s of None \<Rightarrow> [] | Some m \<Rightarrow> [TrackStop m])"
  by (simp_all add: stopStream_def perform_def split: option.splits)

lemma disconnectProcessor_fields:
  "sessionPromiseRef (disconnectProcessor s) = sessionPromiseRef s"
  "streamRef (disconnectProcessor s) = streamRef s"
  "scriptProcessorRef (disconnectProcessor s) = None"
  "mediaStreamSourceRef (disconnectProcessor s) = mediaStreamSourceRef s"
  "inputAudioContextRef (disconnectProcessor s) = inputAudioContextRef s"
  "outputAudioContextRef (disconnectProcessor s) = outputAudioContextRef s"
  "audioSourcesRef (disconnectProcessor s) = audioSourcesRef s"
  "trace (disconnectProcessor s) = trace s @
     (case scriptProcessorRef s of None \<Rightarrow> [] | Some n \<Rightarrow> [NodeDisconnect n])"
  by (simp_all add: disconnectProcessor_def perform_def split: option.splits)

lemma disconnectSource_fields:
  "sessionPromiseRef (disconnectSource s) = sessionPromiseRef s"
  "streamRef (disconnectSource s) = streamRef s"
  "scriptProcessorRef (disconnectSource s) = scriptProcessorRef s"
  "mediaStreamSourceRef (disconnectSource s) = None"
  "inputAudioContextRef (disconnectSource s) = inputAudioContextRef s"
  "outputAudioContextRef (disconnectSource s) = outputAudioContextRef s"
  "audioSourcesRef (disconnectSource s) = audioSourcesRef s"
  "trace (disconnectSource s) = trace s @
     (case mediaStreamSourceRef s of None \<Rightarrow> [] | Some n \<Rightarrow> [NodeDisconnect n])"
  by (simp_all add: disconnectSource_def perform_def split: option.splits)

lemma closeInput_fields:
  "sessionPromiseRef (closeInput s) = sessionPromiseRef s"
  "streamRef (closeInput s) = streamRef s"
  "scriptProcessorRef (closeInput s) = scriptProcessorRef s"
  "mediaStreamSourceRef (closeInput s) = mediaStreamSourceRef s"
  "(case inputAudioContextRef (closeInput s) of None \<Rightarrow> True | Some c \<Rightarrow> context_state c = Closed)"
  "outputAudioContextRef (closeInput s) = outputAudioContextRef s"
  "audioSourcesRef (closeInput s) = audioSourcesRef s"
  "trace (closeInput s) = trace s @
     (case inputAudioContextRef s of None \<Rightarrow> []
      | Some c \<Rightarrow> if context_state c \<noteq> Closed then [ContextClose (context_id c)] else [])"
  by (simp_all add: closeInput_def perform_def split: option.splits)

lemma closeOutput_fields:
  "sessionPromiseRef (closeOutput s) = sessionPromiseRef s"
  "streamRef (closeOutput s) = streamRef s"
  "scriptProcessorRef (closeOutput s) = scriptProcessorRef s"
  "mediaStreamSourceRef (closeOutput s) = mediaStreamSourceRef s"
  "inputAudioContextRef (closeOutput s) = inputAudioContextRef s"
  "(case outputAudioContextRef (closeOutput s) of None \<Rightarrow> True | Some c \<Rightarrow> context_state c = Closed)"
  "audioSourcesRef (closeOutput s) = audioSourcesRef s"
  "trace (closeOutput s) = trace s @
     (case outputAudioContextRef s of None \<Rightarrow> []
      | Some c \<Rightarrow> if context_state c \<noteq> Closed then [ContextClose (context_id c)] else [])"
  by (simp_all add: closeOutput_def perform_def split: option.splits)

lemma clearSources_fields:
  "sessionPromiseRef (clearSources s) = sessionPromiseRef s"
  "streamRef (clearSources s) = streamRef s"
  "scriptProcessorRef (clearSources s) = scriptProcessorRef s"
  "mediaStreamSourceRef (clearSources s) = mediaStreamSourceRef s"
  "inputAudioContextRef (clearSources s) = inputAudioContextRef s"
  "outputAudioContextRef (clearSources s) = outputAudioContextRef s"
  "audioSourcesRef (clearSources s) = []"
  "trace (clearSources s) = trace s @ map SourceStop (audioSourcesRef s)"
  by (simp_all add: clearSources_def perform_def)

lemmas stop_fields = closeSession_fields stopStream_fields disconnectProcessor_fields
  disconnectSource_fields closeInput_fields closeOutput_fields clearSources_fields

lemma released_stopConversation: "released (stopConversation s)"
  unfolding released_def stopConversation_def
  by (simp add: stop_fields)

lemma stopConversation_flags:
  "nextStartTimeRef (stopConversation s) = 0"
  "\<not> isActive (stopConversation s)"
  "\<not> isConnecting (stopConversation s)"
  by (simp_all add: stopConversation_def)

lemma idle_stopConversation: "idle (stopConversation s)"
  by (simp add: idle_def released_stopConversation stopConversation_flags)

lemma trace_stopConversation: "trace (stopConversation s) = trace s @ releases s"
  by (simp add: stopConversation_def releases_def stop_fields)

lemma closeSession_fixed: "sessionPromiseRef t = None \<Longrightarrow> closeSession t = t"
  by (simp add: closeSession_def)

lemma stopStream_fixed: "streamRef t = None \<Longrightarrow> stopStream t = t"
  by (simp add: stopStream_def)

lemma disconnectProcessor_fixed: "scriptProcessorRef t = None \<Longrightarrow> disconnectProcessor t = t"
  by (simp add: disconnectProcessor_def)

lemma disconnectSource_fixed: "mediaStreamSourceRef t = None \<Longrightarrow> disconnectSource t = t"
  by (simp add: disconnectSource_def)

lemma closeInput_fixed:
  "(case inputAudioContextRef t of None \<Rightarrow> True | Some c \<Rightarrow> context_state c = Closed)
     \<Longrightarrow> closeInput t = t"
  by (cases "inputAudioContextRef t") (simp_all add: closeInput_def)

lemma closeOutput_fixed:
  "(case outputAudioContextRef t of None \<Rightarrow> True | Some c \<Rightarrow> context_state c = Closed)
     \<Longrightarrow> closeOutput t = t"
  by (cases "outputAudioContextRef t") (simp_all add: closeOutput_def)

lemma clearSources_fixed: "audioSourcesRef t = [] \<Longrightarrow> clearSources t = t"
  by (cases t) (simp add: clearSources_def perform_def)

lemma idle_fixed:
  assumes "idle t"
  shows "stopConversation t = t"
proof -
  from assms have "clearSources (closeOutput (closeInput (disconnectSource
      (disconnectProcessor (stopStream (closeSession t)))))) = t"
    by (simp add: idle_def released_def closeSession_fixed stopStream_fixed
        disconnectProcessor_fixed disconnectSource_fixed closeInput_fixed closeOutput_fixed
        clearSources_fixed)
  then have "stopConversation t = t\<lparr> nextStartTimeRef := 0, isActive := False, isConnecting := False \<rparr>"
    by (simp add: stopConversation_def)
  with assms show ?thesis by (cases t) (simp add: idle_def)
qed

lemma releases_idle: "idle t \<Longrightarrow> releases t = []"
  by (auto simp: idle_def released_def releases_def split: option.splits)

text \<open>
  Claim C3. \<open>stopConversation\<close> is idempotent. From every state, one call ends in
  the terminal state (no session, no stream, no processing node, no open audio context,
  no scheduled source, cursor zero, neither active nor connecting) and makes exactly the
  release calls of the resources held, each once; a second call changes nothing, the
  trace of calls included, as nothing is left to release.
\<close>

theorem stopConversation_idempotent:
  "stopConversation (stopConversation s) = stopConversation s \<and>
   idle (stopConversation s) \<and>
   trace (stopConversation s) = trace s @ releases s \<and>
   releases (stopConversation s) = []"
  by (simp add: idle_fixed idle_stopConversation trace_stopConversation releases_idle)

lemmas example_defs = active_1_def env_1_def env_2_def env_3_def env_denied_def initial_def
  onOpen_def startConversation_def startConversation_begin_def startConversation_resume_def
  perform_def render_def

theorem stopConversation_idempotent_witness:
  "trace (stopConversation (stopConversation active_1)) =
     [Connect 4, NodeConnect 5, NodeConnect 6, SessionClose 4, TrackStop 1, NodeDisconnect 6,
      NodeDisconnect 5, ContextClose 2, ContextClose 3]"
  using stopConversation_idempotent [of active_1]
  by (simp add: example_defs releases_def)

section \<open>Playback schedule\<close>

lemma appendTranscripts_playback:
  "trace (appendTranscripts m s) = trace s"
  "nextStartTimeRef (appendTranscripts m s) = nextStartTimeRef s"
  "audioSourcesRef (appendTranscripts m s) = audioSourcesRef s"
  "outputAudioContextRef (appendTranscripts m s) = outputAudioContextRef s"
  "sourcesCreated (appendTranscripts m s) = sourcesCreated s"
  by (simp_all add: appendTranscripts_def Let_def split: option.splits)

lemma commitTurn_playback:
  "trace (commitTurn c m s) = trace s"
  "nextStartTimeRef (commitTurn c m s) = nextStartTimeRef s"
  "audioSourcesRef (commitTurn c m s) = audioSourcesRef s"
  "outputAudioContextRef (commitTurn c m s) = outputAudioContextRef s"
  "sourcesCreated (commitTurn c m s) = sourcesCreated s"
  by (simp_all add: commitTurn_def)

lemma starts_append: "starts (as @ bs) = starts as @ starts bs"
  by (induction as rule: starts.induct) simp_all

lemma starts_stops: "starts (map SourceStop xs) = []"
  by (induction xs) simp_all

lemma sequential_mono: "sequential cursor cs \<Longrightarrow> cursor' \<le> cursor \<Longrightarrow> sequential cursor' cs"
  by (cases cs) auto

lemma trace_stopEach: "trace (stopEach xs s) = trace s @ map SourceStop xs"
  by (induction xs arbitrary: s) (simp_all add: perform_def)

lemma audioSourcesRef_stopEach:
  "audioSourcesRef (stopEach xs s) = filter (\<lambda>i. i \<notin> set xs) (audioSourcesRef s)"
  by (induction xs arbitrary: s) (auto simp: perform_def removeAll_filter_not_eq intro!: filter_cong)

lemma stopEach_keeps:
  "outputAudioContextRef (stopEach xs s) = outputAudioContextRef s"
  "sourcesCreated (stopEach xs s) = sourcesCreated s"
  "nextStartTimeRef (stopEach xs s) = nextStartTimeRef s"
  "transcriptHistory (stopEach xs s) = transcriptHistory s"
  "userTranscript (stopEach xs s) = userTranscript s"
  "aiTranscript (stopEach xs s) = aiTranscript s"
  by (induction xs arbitrary: s; simp add: perform_def)+

lemmas stopEach_fields = trace_stopEach audioSourcesRef_stopEach stopEach_keeps

lemma flushOnInterrupt_keeps:
  "outputAudioContextRef (flushOnInterrupt m s) = outputAudioContextRef s"
  "transcriptHistory (flushOnInterrupt m s) = transcriptHistory s"
  "userTranscript (flushOnInterrupt m s) = userTranscript s"
  "aiTranscript (flushOnInterrupt m s) = aiTranscript s"
  "starts (trace (flushOnInterrupt m s)) = starts (trace s)"
  by (simp_all add: flushOnInterrupt_def stopEach_fields starts_append starts_stops)

lemma enqueueAudio_keeps:
  "outputAudioContextRef (state_of (enqueueAudio dec now m s)) = outputAudioContextRef s"
  "transcriptHistory (state_of (enqueueAudio dec now m s)) = transcriptHistory s"
  "userTranscript (state_of (enqueueAudio dec now m s)) = userTranscript s"
  "aiTranscript (state_of (enqueueAudio dec now m s)) = aiTranscript s"
  by (simp_all add: enqueueAudio_def perform_def Let_def split: sum.splits option.splits)

lemma state_of_handleMessage:
  "state_of (handleMessage dec c now m s) =
     (case enqueueAudio dec now m (commitTurn c m (appendTranscripts m s)) of
        Rejected e s' \<Rightarrow> s'
      | Resolved s' \<Rightarrow> flushOnInterrupt m s')"
  by (simp add: handleMessage_def split: outcome.splits)

lemma handleMessage_keeps_output:
  "outputAudioContextRef (state_of (handleMessage dec c now m s)) = outputAudioContextRef s"
proof (cases "enqueueAudio dec now m (commitTurn c m (appendTranscripts m s))")
  case (Resolved s')
  with enqueueAudio_keeps(1) [of dec now m "commitTurn c m (appendTranscripts m s)"]
  show ?thesis
    by (simp add: state_of_handleMessage flushOnInterrupt_keeps appendTranscripts_playback
        commitTurn_playback)
next
  case (Rejected e s')
  with enqueueAudio_keeps(1) [of dec now m "commitTurn c m (appendTranscripts m s)"]
  show ?thesis
    by (simp add: state_of_handleMessage appendTranscripts_playback commitTurn_playback)
qed

text \<open>
  With an output context, a fragment adds one chunk to the schedule exactly when it is
  enqueued, at the later of cursor and clock, and the cursor moves to the end of that
  chunk; otherwise the schedule is as before and the cursor has not moved back.
\<close>

lemma enqueueAudio_enqueues:
  assumes "outputAudioContextRef s \<noteq> None"
  shows "case audio_of dec m of
           None \<Rightarrow>
             trace (state_of (enqueueAudio dec now m s)) = trace s \<and>
             nextStartTimeRef s \<le> nextStartTimeRef (state_of (enqueueAudio dec now m s))
         | Some b \<Rightarrow>
             enqueueAudio dec now m s = Resolved
               (s\<lparr> nextStartTimeRef := max (nextStartTimeRef s) now + duration b,
                   sourcesCreated := Suc (sourcesCreated s),
                   trace := trace s @ [SourceStart (sourcesCreated s) now
                                         (max (nextStartTimeRef s) now) (duration b)],
                   audioSourcesRef := audioSourcesRef s @ [sourcesCreated s] \<rparr>)"
  using assms
  by (cases s) (auto simp: enqueueAudio_def audio_of_def perform_def Let_def
      split: sum.splits option.splits)

lemma handleMessage_enqueues:
  assumes "outputAudioContextRef s \<noteq> None"
  shows "starts (trace (state_of (handleMessage dec c now m s))) =
           starts (trace s) @
             (case audio_of dec m of None \<Rightarrow> []
              | Some b \<Rightarrow> [(now, max (nextStartTimeRef s) now, duration b)])"
proof -
  let ?s0 = "commitTurn c m (appendTranscripts m s)"
  have s0: "outputAudioContextRef ?s0 \<noteq> None" "trace ?s0 = trace s"
    "nextStartTimeRef ?s0 = nextStartTimeRef s"
    using assms by (simp_all add: appendTranscripts_playback commitTurn_playback)
  show ?thesis
  proof (cases "audio_of dec m")
    case None
    with enqueueAudio_enqueues [OF s0(1), where dec = dec and m = m and now = now] s0(2)
    have "trace (state_of (enqueueAudio dec now m ?s0)) = trace s" by simp
    with None show ?thesis
      by (cases "enqueueAudio dec now m ?s0")
        (simp_all add: state_of_handleMessage flushOnInterrupt_keeps)
  next
    case (Some b)
    with enqueueAudio_enqueues [OF s0(1), where dec = dec and m = m and now = now] s0(2,3) Some show ?thesis
      by (simp add: state_of_handleMessage flushOnInterrupt_keeps starts_append)
  qed
qed

lemma handleMessage_cursor:
  assumes "outputAudioContextRef s \<noteq> None" and "\<not> is_interrupted m"
  shows "case audio_of dec m of
           None \<Rightarrow> nextStartTimeRef s \<le> nextStartTimeRef (state_of (handleMessage dec c now m s))
         | Some b \<Rightarrow> nextStartTimeRef (state_of (handleMessage dec c now m s)) =
                      max (nextStartTimeRef s) now + duration b"
proof -
  let ?s0 = "commitTurn c m (appendTranscripts m s)"
  have s0: "outputAudioContextRef ?s0 \<noteq> None" "nextStartTimeRef ?s0 = nextStartTimeRef s"
    using assms(1) by (simp_all add: appendTranscripts_playback commitTurn_playback)
  have eq: "state_of (handleMessage dec c now m s) = state_of (enqueueAudio dec now m ?s0)"
    using assms(2) by (simp add: handleMessage_def flushOnInterrupt_def split: outcome.splits)
  from enqueueAudio_enqueues [OF s0(1), where dec = dec and m = m and now = now] s0(2) eq show ?thesis
    by (cases "audio_of dec m") simp_all
qed

lemma deliver_schedule:
  assumes "outputAudioContextRef s \<noteq> None"
    and "list_all (\<lambda>(now, m). \<not> is_interrupted m) fs"
  shows "\<exists>new. starts (trace (deliver dec c fs s)) = starts (trace s) @ new \<and>
           map (\<lambda>(now, t, d). (now, d)) new = enqueued dec fs \<and>
           sequential (nextStartTimeRef s) new"
  using assms
proof (induction fs arbitrary: s)
  case Nil
  then show ?case by simp
next
  case (Cons f fs)
  obtain now m where f: "f = (now, m)" by (cases f)
  let ?s1 = "state_of (handleMessage dec c now m s)"
  from Cons.prems f have m: "\<not> is_interrupted m"
    and rest: "list_all (\<lambda>(now, m). \<not> is_interrupted m) fs"
    by simp_all
  have out: "outputAudioContextRef ?s1 \<noteq> None"
    using Cons.prems(1) by (simp add: handleMessage_keeps_output)
  from Cons.IH [OF out rest] obtain new where
    new: "starts (trace (deliver dec c fs ?s1)) = starts (trace ?s1) @ new"
      "map (\<lambda>(now, t, d). (now, d)) new = enqueued dec fs"
      "sequential (nextStartTimeRef ?s1) new"
    by blast
  note step = handleMessage_enqueues [OF Cons.prems(1), where dec = dec and c = c and now = now and m = m]
    handleMessage_cursor [OF Cons.prems(1) m, where dec = dec and c = c and now = now]
  show ?case
  proof (cases "audio_of dec m")
    case None
    with step have "starts (trace ?s1) = starts (trace s)"
      "nextStartTimeRef s \<le> nextStartTimeRef ?s1"
      by simp_all
    with new None f sequential_mono [OF new(3)] show ?thesis by simp
  next
    case (Some b)
    with step have "starts (trace ?s1) =
        starts (trace s) @ [(now, max (nextStartTimeRef s) now, duration b)]"
      "nextStartTimeRef ?s1 = max (nextStartTimeRef s) now + duration b"
      by simp_all
    with new Some f have "starts (trace (deliver dec c (f # fs) s)) =
        starts (trace s) @ ((now, max (nextStartTimeRef s) now, duration b) # new) \<and>
      map (\<lambda>(now, t, d). (now, d)) ((now, max (nextStartTimeRef s) now, duration b) # new) =
        enqueued dec (f # fs) \<and>
      sequential (nextStartTimeRef s) ((now, max (nextStartTimeRef s) now, duration b) # new)"
      by simp
    then show ?thesis by blast
  qed
qed

lemma enqueued_all:
  "list_all (\<lambda>(now, m). audio_of dec m \<noteq> None) fs \<Longrightarrow> length (enqueued dec fs) = length fs"
  by (induction fs) (auto split: option.splits)

text \<open>
  Claim C2. The session has its output context, and fragments are delivered one after the
  other to the handler, none of them with the interruption flag; \<open>now\<close> is what the
  output clock reads when a fragment is handled. Then the chunks scheduled before stay,
  and the chunks added are those of the enqueued fragments, one for each and in their
  order, with the clock reading and the duration of that fragment; so when every
  fragment carries audio that decodes, there are as many new chunks as fragments. Each of
  them starts no earlier than the clock at its scheduling and no earlier than the end of
  the chunk scheduled before it (for the first, the cursor of the state the delivery
  began in). So three audio fragments give three chunks, and the second starts at or
  after the end of the first.
\<close>

theorem playback_sequential:
  assumes "outputAudioContextRef s \<noteq> None"
    and "list_all (\<lambda>(now, m). \<not> is_interrupted m) fs"
  shows "take (length (starts (trace s))) (starts (trace (deliver dec c fs s))) = starts (trace s) \<and>
         map (\<lambda>(now, t, d). (now, d))
           (drop (length (starts (trace s))) (starts (trace (deliver dec c fs s)))) = enqueued dec fs \<and>
         (list_all (\<lambda>(now, m). audio_of dec m \<noteq> None) fs \<longrightarrow>
            length (drop (length (starts (trace s))) (starts (trace (deliver dec c fs s)))) = length fs) \<and>
         sequential (nextStartTimeRef s)
           (drop (length (starts (trace s))) (starts (trace (deliver dec c fs s))))"
proof -
  from deliver_schedule [OF assms, of dec c] obtain new where
    new: "starts (trace (deliver dec c fs s)) = starts (trace s) @ new"
      "map (\<lambda>(now, t, d). (now, d)) new = enqueued dec fs"
      "sequential (nextStartTimeRef s) new"
    by blast
  from new(2) have "length new = length (enqueued dec fs)"
    by (metis length_map)
  with new show ?thesis by (simp add: enqueued_all)
qed

lemmas message_defs = no_content_def ai_delta_def user_delta_def audio_def turn_complete_def
  interruption_def interrupted_audio_def interrupted_no_parts_def is_interrupted_def
  is_turnComplete_def base64Audio_def

lemmas handler_defs = handleMessage_def appendTranscripts_def commitTurn_def enqueueAudio_def
  flushOnInterrupt_def decodeFragment_def duration_def Let_def

theorem playback_sequential_witness:
  "outputAudioContextRef active_1 \<noteq> None \<and>
   list_all (\<lambda>(now, m). \<not> is_interrupted m)
     [(0, audio [0, 64, 0, 0]), (1 / 24000, audio [0, 64, 0, 0]), (1, audio [0, 64])] \<and>
   list_all (\<lambda>(now, m). audio_of (decodeFragment 24000 1) m \<noteq> None)
     [(0, audio [0, 64, 0, 0]), (1 / 24000, audio [0, 64, 0, 0]), (1, audio [0, 64])] \<and>
   starts (trace (deliver (decodeFragment 24000 1) (render initial)
     [(0, audio [0, 64, 0, 0]), (1 / 24000, audio [0, 64, 0, 0]), (1, audio [0, 64])] active_1))
   = [(0, 0, 1 / 12000), (1 / 24000, 1 / 12000, 1 / 12000), (1, 1, 1 / 24000)] \<and>
   sequential 0 [(0, 0, 1 / 12000), (1 / 24000, 1 / 12000, 1 / 12000), (1, 1, 1 / 24000)]"
  using playback_sequential [of active_1
      "[(0, audio [0, 64, 0, 0]), (1 / 24000, audio [0, 64, 0, 0]), (1, audio [0, 64])]"
      "decodeFragment 24000 1" "render initial"]
  by (simp add: example_defs message_defs handler_defs audio_of_def)

section \<open>Interruption\<close>

text \<open>
  When the handler reaches its end on a fragment with the interruption flag, every source
  of the set has been stopped, the set is empty and the cursor is zero; an audio fragment
  enqueued next, when the clock reads \<open>now \<ge> 0\<close>, starts at \<open>now\<close>.
\<close>

lemma flush_on_interruption:
  assumes "is_interrupted m" and "handleMessage dec c now m s = Resolved s'"
  shows "audioSourcesRef s' = [] \<and> nextStartTimeRef s' = 0 \<and>
         list_all (\<lambda>i. SourceStop i \<in> set (drop (length (trace s)) (trace s'))) (audioSourcesRef s)"
proof -
  let ?s0 = "commitTurn c m (appendTranscripts m s)"
  from assms(2) obtain s1 where
    s1: "enqueueAudio dec now m ?s0 = Resolved s1" "s' = flushOnInterrupt m s1"
    by (auto simp: handleMessage_def split: outcome.splits)
  have "\<exists>as ns. trace s1 = trace s @ as \<and> audioSourcesRef s1 = audioSourcesRef s @ ns"
    using s1(1)
    by (auto simp: enqueueAudio_def perform_def Let_def appendTranscripts_playback
        commitTurn_playback split: sum.splits option.splits if_splits)
  then obtain as ns where
    "trace s1 = trace s @ as" "audioSourcesRef s1 = audioSourcesRef s @ ns"
    by blast
  with assms(1) s1(2) have "trace s' = trace s @ as @ map SourceStop (audioSourcesRef s @ ns)"
    "audioSourcesRef s' = []" "nextStartTimeRef s' = 0"
    by (simp_all add: flushOnInterrupt_def stopEach_fields)
  then show ?thesis by (simp add: list_all_iff)
qed

lemma starts_at_once:
  assumes "nextStartTimeRef s = 0" "0 \<le> now" "outputAudioContextRef s \<noteq> None"
    "audio_of dec m = Some b"
  shows "starts (trace (state_of (handleMessage dec c now m s))) =
           starts (trace s) @ [(now, now, duration b)]"
  using handleMessage_enqueues [OF assms(3), where dec = dec and c = c and now = now and m = m]
    assms(1,2,4)
  by simp

text \<open>
  Claim C4, at inputs where the code departs from it. Two chunks are pending. A fragment
  arrives with the interruption flag and an audio payload of three bytes: decoding fails,
  the handler is left at the \<open>await\<close>, and the flag is never read. The two sources
  are still in the set, none has been stopped, and the cursor is not zero. The same
  happens, by a \<open>TypeError\<close>, when the fragment with the flag has a \<open>modelTurn\<close>
  without \<open>parts\<close>. A fragment on which the handler reaches its end does flush
  (\<open>flush_on_interruption\<close>).
\<close>

theorem interruption_skipped_on_fault:
  "is_interrupted (interrupted_audio [0, 64, 0]) \<and>
   audioSourcesRef pending_2 = [0, 1] \<and>
   handleMessage (decodeFragment 24000 1) (render initial) 1 (interrupted_audio [0, 64, 0]) pending_2
     = Rejected DecodeError (pending_2\<lparr> nextStartTimeRef := 1 \<rparr>) \<and>
   audioSourcesRef (pending_2\<lparr> nextStartTimeRef := 1 \<rparr>) = [0, 1] \<and>
   trace (pending_2\<lparr> nextStartTimeRef := 1 \<rparr>) = trace pending_2 \<and>
   is_interrupted interrupted_no_parts \<and>
   handleMessage (decodeFragment 24000 1) (render initial) 1 interrupted_no_parts pending_2
     = Rejected TypeError pending_2"
  by (simp add: pending_2_def example_defs message_defs handler_defs)

section \<open>Committing a turn\<close>

lemma handleMessage_transcripts:
  "transcriptHistory (state_of (handleMessage dec c now m s)) =
     transcriptHistory (commitTurn c m (appendTranscripts m s))"
  "userTranscript (state_of (handleMessage dec c now m s)) =
     userTranscript (commitTurn c m (appendTranscripts m s))"
  "aiTranscript (state_of (handleMessage dec c now m s)) =
     aiTranscript (commitTurn c m (appendTranscripts m s))"
  using enqueueAudio_keeps [of dec now m "commitTurn c m (appendTranscripts m s)"]
  by (cases "enqueueAudio dec now m (commitTurn c m (appendTranscripts m s))";
      simp add: state_of_handleMessage flushOnInterrupt_keeps)+

lemma handleMessage_commits_closure:
  assumes "is_turnComplete m"
  shows "transcriptHistory (state_of (handleMessage dec c now m s)) =
           transcriptHistory s @ [\<lparr> user = seen_userTranscript c, ai = seen_aiTranscript c \<rparr>]"
proof -
  have "transcriptHistory (appendTranscripts m s) = transcriptHistory s"
    by (simp add: appendTranscripts_def Let_def split: option.splits)
  with assms show ?thesis
    by (simp add: handleMessage_transcripts commitTurn_def)
qed

lemma handleMessage_resets_accumulators:
  assumes "is_turnComplete m"
  shows "userTranscript (state_of (handleMessage dec c now m s)) = [] \<and>
         aiTranscript (state_of (handleMessage dec c now m s)) = []"
  using assms by (simp add: handleMessage_transcripts commitTurn_def)

text \<open>
  Claim C1, at an input where the code departs from it. A fresh component is started; the
  session is opened with the handler of that render, which sees two empty transcripts.
  An ai delta \<open>hi\<close>, an audio fragment and turn-complete arrive. Before turn-complete
  the accumulated ai text is \<open>hi\<close>; turn-complete commits one Turn, and its ai text is
  empty, not \<open>hi\<close>. In general a turn-complete fragment adds exactly one Turn and
  empties both accumulators, but the Turn holds the transcripts the handler saw at its
  render, not the text accumulated since (\<open>handleMessage_commits_closure\<close>,
  \<open>handleMessage_resets_accumulators\<close>).
\<close>

theorem committed_turn_is_stale:
  "sessionPromiseRef active_1 = Some \<lparr> session_id = 4, onMessage = render initial \<rparr> \<and>
   aiTranscript (deliver (decodeFragment 24000 1) (render initial)
     [(0, ai_delta ''hi''), (0, audio [0, 64])] active_1) = ''hi'' \<and>
   transcriptHistory (deliver (decodeFragment 24000 1) (render initial)
     [(0, ai_delta ''hi''), (0, audio [0, 64]), (0, turn_complete)] active_1)
     = [\<lparr> user = [], ai = [] \<rparr>]"
  by (simp add: example_defs message_defs handler_defs)

section \<open>Fragments after \<open>stopConversation\<close>\<close>

lemma late_fragment_playback:
  assumes "outputAudioContextRef t = None" "audioSourcesRef t = []" "nextStartTimeRef t = 0"
  shows "fault_of (handleMessage dec c now m t) =
           (case base64Audio m of Inl e \<Rightarrow> Some e | Inr payload \<Rightarrow> None) \<and>
         trace (state_of (handleMessage dec c now m t)) = trace t \<and>
         audioSourcesRef (state_of (handleMessage dec c now m t)) = [] \<and>
         nextStartTimeRef (state_of (handleMessage dec c now m t)) = 0"
proof -
  let ?s0 = "commitTurn c m (appendTranscripts m t)"
  from assms(1) have "enqueueAudio dec now m ?s0 =
      (case base64Audio m of Inl e \<Rightarrow> Rejected e ?s0 | Inr payload \<Rightarrow> Resolved ?s0)"
    by (simp add: enqueueAudio_def appendTranscripts_playback commitTurn_playback
        split: sum.splits option.splits)
  with assms(2,3) show ?thesis
    by (simp add: handleMessage_def flushOnInterrupt_def appendTranscripts_playback
        commitTurn_playback split: sum.splits)
qed

text \<open>
  Claim C5, at an input where the code departs from it. The active session of the example
  is stopped. A transcript delta that arrives afterwards is appended to the accumulator,
  and a turn-complete that arrives afterwards adds a Turn to the history: the handler has
  no test of the session's state before the transcript updates. The playback schedule
  is left as it was, and the only fault there can be is the \<open>TypeError\<close> of a
  \<open>modelTurn\<close> without \<open>parts\<close> (\<open>late_fragment_playback\<close>).
\<close>

theorem late_fragment_is_applied:
  "idle (stopConversation active_1) \<and>
   aiTranscript (stopConversation active_1) = [] \<and>
   transcriptHistory (stopConversation active_1) = [] \<and>
   aiTranscript (state_of (handleMessage (decodeFragment 24000 1) (render initial) 0
      (ai_delta ''late'') (stopConversation active_1))) = ''late'' \<and>
   transcriptHistory (state_of (handleMessage (decodeFragment 24000 1) (render initial) 0
      turn_complete (stopConversation active_1))) = [\<lparr> user = [], ai = [] \<rparr>]"
  by (simp add: idle_stopConversation)
    (simp add: example_defs message_defs handler_defs stopConversation_def closeSession_def
      stopStream_def disconnectProcessor_def disconnectSource_def closeInput_def closeOutput_def
      clearSources_def)

section \<open>Malformed audio\<close>

lemma odd_length_fails: "odd (length bs) \<Longrightarrow> decodeFragment rate ch bs = Inl DecodeError"
  by (simp add: decodeFragment_def odd_iff_mod_2_eq_one)

lemma decode_failure:
  assumes "base64Audio m = Inr (Some p)" "p \<noteq> []" "outputAudioContextRef s \<noteq> None" "dec p = Inl e"
  shows "handleMessage dec c now m s =
           Rejected e ((commitTurn c m (appendTranscripts m s))
                         \<lparr> nextStartTimeRef := max (nextStartTimeRef s) now \<rparr>)"
  using assms
  by (simp add: handleMessage_def enqueueAudio_def Let_def appendTranscripts_playback
      commitTurn_playback)

text \<open>
  Claim C7, at an input where the code departs from it. An audio payload of three bytes,
  not a whole number of 16-bit samples, arrives in the active session of the example, and
  decoding fails with \<open>DecodeError\<close>. Nothing is scheduled and the session stays as it
  was, so later fragments are handled; but the error leaves the handler uncaught (its
  promise is rejected) and the component writes nothing to the console: the trace is the
  one before. When such a payload comes with the interruption flag, the two pending
  sources are not stopped either, as the handler is left before it reads the flag.
\<close>

theorem decode_failure_escapes:
  "handleMessage (decodeFragment 24000 1) (render initial) 1 (audio [0, 64, 0]) active_1
     = Rejected DecodeError (active_1\<lparr> nextStartTimeRef := 1 \<rparr>) \<and>
   trace (state_of (handleMessage (decodeFragment 24000 1) (render initial) 1
      (audio [0, 64, 0]) active_1)) = trace active_1 \<and>
   audioSourcesRef pending_2 = [0, 1] \<and>
   audioSourcesRef (state_of (handleMessage (decodeFragment 24000 1) (render initial) 1
      (interrupted_audio [0, 64, 0]) pending_2)) = [0, 1]"
  by (simp add: pending_2_def example_defs message_defs handler_defs)

section \<open>Codec round trip\<close>

lemma js_trunc_bounds:
  assumes "-32768 \<le> y" "y < 32768"
  shows "-32768 \<le> js_trunc y" "js_trunc y \<le> 32767" "\<bar>real_of_int (js_trunc y) - y\<bar> < 1"
  using assms unfolding js_trunc_def by (auto; linarith)+

lemma sint_toInt16:
  assumes "-32768 \<le> y" "y < 32768"
  shows "sint (toInt16 y) = js_trunc y"
proof -
  from js_trunc_bounds [OF assms] have "- (2 ^ 15) \<le> js_trunc y" "js_trunc y < 2 ^ 15"
    by simp_all
  then have "signed_take_bit 15 (js_trunc y) = js_trunc y"
    by (rule signed_take_bit_int_eq_self)
  then show ?thesis
    by (simp add: toInt16_def sint_sbintrunc')
qed

lemma quantize_roundtrip:
  assumes "-1 \<le> x" "x < 1"
  shows "\<bar>real_of_int (sint (toInt16 (x * 32768))) / 32768 - x\<bar> < 1 / 32768"
proof -
  let ?y = "x * 32768"
  from assms have y: "-32768 \<le> ?y" "?y < 32768" by simp_all
  have "\<bar>real_of_int (js_trunc ?y) - ?y\<bar> < 1"
    by (rule js_trunc_bounds [OF y])
  then have "\<bar>real_of_int (js_trunc ?y) / 32768 - x\<bar> < 1 / 32768"
    by (simp add: field_simps abs_if split: if_splits)
  then show ?thesis by (simp add: sint_toInt16 [OF y])
qed

lemma int16_bytes_inverse:
  "int16_samples (int16_bytes w @ bs) = w # int16_samples bs"
proof -
  have "ucast (ucast w :: byte) OR push_bit 8 (ucast (ucast (drop_bit 8 w) :: byte)) = w"
    by (rule bit_word_eqI) (auto simp: bit_simps)
  then show ?thesis by (simp add: int16_bytes_def)
qed

lemma int16_samples_pcmData:
  "int16_samples (pcmData xs) = map (\<lambda>x. toInt16 (x * 32768)) xs"
  by (induction xs) (simp_all add: pcmData_def int16_bytes_inverse)

lemma length_pcmData: "length (pcmData xs) = 2 * length xs"
  by (induction xs) (simp_all add: pcmData_def int16_bytes_def)

lemma decode_pcmData:
  "decodeFragment rate ch (pcmData xs) =
     Inr \<lparr> sampleRate = rate,
           channelData = map (\<lambda>x. real_of_int (sint (toInt16 (x * 32768))) / 32768) xs \<rparr>"
  by (simp add: decodeFragment_def length_pcmData int16_samples_pcmData comp_def)

lemma no_decoder_recovers_full_scale:
  fixes d :: "byte list \<Rightarrow> real"
  shows "\<not> (\<bar>d (pcmData [1]) - 1\<bar> < 1 / 32768 \<and> \<bar>d (pcmData [-1]) - (- 1)\<bar> < 1 / 32768)"
proof
  assume close: "\<bar>d (pcmData [1]) - 1\<bar> < 1 / 32768 \<and> \<bar>d (pcmData [-1]) - (- 1)\<bar> < 1 / 32768"
  have "pcmData [1] = pcmData [-1]"
    by (simp add: pcmData_def int16_bytes_def toInt16_def js_trunc_def)
  with close have "\<bar>d (pcmData [-1]) - 1\<bar> < 1 / 32768" "\<bar>d (pcmData [-1]) + 1\<bar> < 1 / 32768"
    by simp_all
  then show False by linarith
qed

lemma decode_full_scale:
  "decodeFragment 24000 1 (pcmData [1]) = Inr \<lparr> sampleRate = 24000, channelData = [-1] \<rparr>"
  by (simp add: pcmData_def int16_bytes_def toInt16_def js_trunc_def decodeFragment_def)

text \<open>
  Claim C8, at an input where the code departs from it. The sample \<open>1\<close> is stored as
  \<open>32768\<close> modulo \<open>2^16\<close>, which is the 16-bit integer \<open>-32768\<close>; so the frames
  \<open>[1]\<close> and \<open>[-1]\<close> have the same bytes on the wire, and no decoding can give
  back both within a quantisation step (\<open>no_decoder_recovers_full_scale\<close>). The
  inverse decoding gives \<open>-1\<close>
  (\<open>decode_full_scale\<close>), two units away from the sample. For samples from \<open>-1\<close>
  up to, not including, \<open>1\<close> the round trip is within \<open>1/32768\<close>
  (\<open>quantize_roundtrip\<close>, \<open>decode_pcmData\<close>).
\<close>

theorem full_scale_sample_wraps:
  "map (\<lambda>x. sint (toInt16 (x * 32768))) [1, -1] = [-32768, -32768] \<and>
   pcmData [1] = [0, 128] \<and> pcmData [-1] = [0, 128]"
  by (simp add: pcmData_def int16_bytes_def toInt16_def js_trunc_def)

section \<open>Failure paths\<close>

lemma no_Connect_releases: "filter is_Connect (releases s) = []"
  by (simp add: releases_def split: option.splits)

lemma releases_perform: "releases (perform as s) = releases s"
  by (simp add: releases_def perform_def)

lemma error_stopConversation: "error (stopConversation s) = error s"
  by (simp add: stopConversation_def clearSources_def closeOutput_def closeInput_def
      disconnectSource_def disconnectProcessor_def stopStream_def closeSession_def perform_def
      split: option.splits)

lemma onError_tears_down:
  "error (onError s) = Some ''A connection error occurred.'' \<and> idle (onError s) \<and>
   trace (onError s) = trace s @ ConsoleError ''Live session error:'' # releases s"
  by (simp add: onError_def idle_stopConversation trace_stopConversation error_stopConversation
      releases_def perform_def)

lemma onClose_tears_down:
  "error (onClose s) = error s \<and> idle (onClose s) \<and> trace (onClose s) = trace s @ releases s"
  by (simp add: onClose_def idle_stopConversation trace_stopConversation error_stopConversation)

lemma start_refused:
  assumes "getUserMedia env = Inl e"
  shows "startConversation env s =
           (perform [ConsoleError ''Failed to start conversation:''] s)
             \<lparr> error := Some ''Could not access microphone. Please grant permission and try again.'',
               isConnecting := False \<rparr>"
  using assms
  by (simp add: startConversation_def startConversation_begin_def startConversation_resume_def
      perform_def)

lemma start_refused_idle:
  assumes "getUserMedia env = Inl e" "idle s"
  shows "idle (startConversation env s)"
  using assms by (simp add: start_refused idle_def released_def perform_def)

text \<open>
  Claim C6, as the code has it. A transport error (\<open>onError\<close>) sets the status text
  \<open>A connection error occurred.\<close>, logs, and tears down: the state is idle afterwards
  and the calls made are the release calls of what was held. A remote close
  (\<open>onClose\<close>) tears down in the same way and leaves the status text as it was. A
  refused microphone in \<open>startConversation\<close> sets the status text
  \<open>Could not access microphone. Please grant permission and try again.\<close>, clears the
  connecting flag and logs; it makes no release call and holds what was held before, so
  from an idle state the state is idle again. On none of the three paths is a session
  opened.
\<close>

theorem failure_paths:
  "error (onError s) = Some ''A connection error occurred.'' \<and> idle (onError s) \<and>
   trace (onError s) = trace s @ ConsoleError ''Live session error:'' # releases s \<and>
   filter is_Connect (trace (onError s)) = filter is_Connect (trace s) \<and>
   error (onClose s) = error s \<and> idle (onClose s) \<and>
   trace (onClose s) = trace s @ releases s \<and>
   filter is_Connect (trace (onClose s)) = filter is_Connect (trace s) \<and>
   (getUserMedia env = Inl e \<longrightarrow>
      error (startConversation env s) =
        Some ''Could not access microphone. Please grant permission and try again.'' \<and>
      \<not> isConnecting (startConversation env s) \<and>
      trace (startConversation env s) = trace s @ [ConsoleError ''Failed to start conversation:''] \<and>
      releases (startConversation env s) = releases s \<and>
      (idle s \<longrightarrow> idle (startConversation env s)))"
proof -
  have "filter is_Connect (trace (onError s)) = filter is_Connect (trace s)"
    by (simp add: onError_tears_down no_Connect_releases)
  moreover have "filter is_Connect (trace (onClose s)) = filter is_Connect (trace s)"
    by (simp add: onClose_tears_down no_Connect_releases)
  moreover have "error (startConversation env s) =
        Some ''Could not access microphone. Please grant permission and try again.'' \<and>
      \<not> isConnecting (startConversation env s) \<and>
      trace (startConversation env s) = trace s @ [ConsoleError ''Failed to start conversation:''] \<and>
      releases (startConversation env s) = releases s \<and>
      (idle s \<longrightarrow> idle (startConversation env s))" if "getUserMedia env = Inl e"
    using that start_refused_idle [OF that]
    by (simp add: start_refused perform_def releases_def)
  ultimately show ?thesis
    using onError_tears_down [of s] onClose_tears_down [of s] by blast
qed

theorem failure_paths_witness:
  "getUserMedia env_denied = Inl PermissionError \<and> idle initial \<and>
   idle (startConversation env_denied initial) \<and>
   error (startConversation env_denied initial) =
     Some ''Could not access microphone. Please grant permission and try again.'' \<and>
   error (onError active_1) = Some ''A connection error occurred.'' \<and>
   trace (onError active_1) =
     [Connect 4, NodeConnect 5, NodeConnect 6, ConsoleError ''Live session error:'', SessionClose 4,
      TrackStop 1, NodeDisconnect 6, NodeDisconnect 5, ContextClose 2, ContextClose 3]"
  using failure_paths [of active_1 env_denied PermissionError]
    failure_paths [of initial env_denied PermissionError]
  by (simp add: example_defs releases_def idle_def released_def)

text \<open>
  Against claim C6 as stated: after a remote close of the active session of the example
  there is no status text.
\<close>

theorem remote_close_sets_no_text:
  "isActive active_1 \<and> error (onClose active_1) = None"
  by (simp add: onClose_def error_stopConversation) (simp add: example_defs)

section \<open>Starting twice\<close>

text \<open>
  Without a client the promise of \<open>startLiveConversation\<close> is rejected outside the
  \<open>try\<close>: no connection is asked for, no status text is set, the stream and the
  contexts are held, and the component stays connecting.
\<close>

lemma start_without_client:
  assumes "getUserMedia env = Inr stream" and "\<not> client env"
  shows "isConnecting (startConversation env s) \<and> error (startConversation env s) = None \<and>
         trace (startConversation env s) = trace s \<and>
         streamRef (startConversation env s) = Some stream \<and>
         sessionPromiseRef (startConversation env s) =
           Some \<lparr> session_id = newSession env, onMessage = render s \<rparr>"
  using assms
  by (simp add: startConversation_def startConversation_begin_def startConversation_resume_def
      perform_def)

text \<open>
  The gate of the button: in a state flagged active or connecting a click stops and starts
  nothing; in a state with neither flag it runs \<open>startConversation\<close> to its
  \<open>await\<close>, whatever the references hold.
\<close>

lemma toggle_when_flagged:
  assumes "isActive s \<or> isConnecting s"
  shows "toggleConversation s = stopConversation s" and "idle (toggleConversation s)"
    and "filter is_Connect (trace (toggleConversation s)) = filter is_Connect (trace s)"
  using assms
  by (simp_all add: toggleConversation_def idle_stopConversation trace_stopConversation
      no_Connect_releases)

lemma toggle_when_unflagged:
  assumes "\<not> isActive s" and "\<not> isConnecting s"
  shows "toggleConversation s = startConversation_begin s"
  using assms by (simp add: toggleConversation_def)

lemmas stop_defs = stopConversation_def closeSession_def stopStream_def disconnectProcessor_def
  disconnectSource_def closeInput_def closeOutput_def clearSources_def

lemmas race_defs = stopped_1_def starting_2_def closed_late_def connected_2_def starting_3_def
  connected_3_def toggleConversation_def onClose_def

text \<open>
  Claim C9, at an input where the code departs from it. The session of the example
  (stream 1, session 4) is stopped by a click, and the next click starts again. While
  \<open>getUserMedia\<close> of this start is awaited, the close event of session 4 arrives:
  \<open>onClose\<close> runs \<open>stopConversation\<close>, which clears the connecting flag of the
  start under way. \<open>getUserMedia\<close> settles: stream 11 and session 14 are stored, with
  neither flag set. The next click therefore is not refused and tears nothing down: it
  starts once more, and stream 21 and session 24 replace the references to stream 11 and
  session 14. Two sessions have been asked for and none of them closed; the stream and
  the session of the first can no longer be released, as the trace shows.
\<close>

theorem second_session_beside_first:
  "\<not> isActive closed_late \<and> \<not> isConnecting closed_late \<and>
   \<not> isActive connected_2 \<and> \<not> isConnecting connected_2 \<and>
   sessionPromiseRef connected_2 = Some \<lparr> session_id = 14, onMessage = render initial \<rparr> \<and>
   streamRef connected_2 = Some 11 \<and>
   starting_3 = startConversation_begin connected_2 \<and>
   sessionPromiseRef connected_3 = Some \<lparr> session_id = 24, onMessage = render initial \<rparr> \<and>
   streamRef connected_3 = Some 21 \<and>
   trace connected_3 =
     [Connect 4, NodeConnect 5, NodeConnect 6, SessionClose 4, TrackStop 1, NodeDisconnect 6,
      NodeDisconnect 5, ContextClose 2, ContextClose 3, Connect 14, Connect 24]"
  by (simp add: race_defs stop_defs example_defs)

section \<open>The chat service\<close>

lemma nbsp_is_blank: "is_blank [CHR 0xA0, CHR '' '', CHR 0x0A]"
  by (simp add: is_blank_def)

lemma blank_is_not_sent: "is_blank (input st) \<Longrightarrow> handleSendMessage env sent placed replied st = st"
  by (simp add: handleSendMessage_def)

text \<open>
  Claim C10. With a client (the key is present), when the model request that
  \<open>getChatResponse\<close> makes fails, \<open>getChatResponse\<close> returns the text
  \<open>I'm sorry, I encountered an error. Please try again.\<close> with no sources, and does
  not throw. In \<open>handleSendMessage\<close>, for an input that is not blank while nothing is
  loading, the reply that replaces the placeholder is then made of that text, by the
  branch of a returned answer, not by the \<open>catch\<close>.
\<close>

theorem request_failure_is_absorbed:
  assumes "getGenAI env"
  shows "(generateContent env (chat_request h msg img pro srch maps geo) = Inl e \<longrightarrow>
            getChatResponse env h msg img pro srch maps geo =
              Inr \<lparr> reply_text = ''I'm sorry, I encountered an error. Please try again.'',
                    reply_sources = [] \<rparr>) \<and>
         (generateContent env (chat_request (historyForApi st) (input st) (imagePart st)
              (useProModel st) (useSearch st) (useMaps st) (geoLocation st)) = Inl e \<and>
          \<not> is_blank (input st) \<and> \<not> isLoading st \<longrightarrow>
            messages (handleSendMessage env sent placed replied st) =
              messages st @
                [userMessage sent st,
                 \<lparr> message_id = replied + 1, sender = AI,
                   message_text = ''I'm sorry, I encountered an error. Please try again.'',
                   message_image = None, sources = Some [] \<rparr>])"
  using assms by (simp add: getChatResponse_def handleSendMessage_def Let_def butlast_append)

theorem request_failure_is_absorbed_witness:
  "getGenAI failing_service \<and> \<not> is_blank (input chat_1) \<and> \<not> isLoading chat_1 \<and>
   map message_text (messages (handleSendMessage failing_service 7 8 9 chat_1)) =
     [''hello'', ''I'm sorry, I encountered an error. Please try again.'']"
  using request_failure_is_absorbed [where env = failing_service and h = "historyForApi chat_1"
      and msg = "input chat_1" and img = "imagePart chat_1" and pro = False and srch = False
      and maps = False and geo = None and e = RequestFailed and st = chat_1 and sent = 7
      and placed = 8 and replied = 9]
  by (simp add: failing_service_def chat_1_def getGenAI_def is_blank_def userMessage_def)

end
